theory Spec2Isabelle
  imports Complex_Main
begin

section \<open>Python values and exceptions\<close>

text \<open>
  The notebook \<^verbatim>\<open>custom_layer_examples.ipynb\<close> is Python. Its statements index lists,
  read dictionaries and assign protobuf fields; each of these can raise. The exceptions the
  notebook's own code can raise are \<open>IndexError\<close> (an index out of range), \<open>ValueError\<close>
  (\<^verbatim>\<open>tf_op.get_attr\<close> on a missing attribute) and \<open>TypeError\<close> (a value of the wrong
  type assigned to a typed protobuf field, or \<^verbatim>\<open>map(float, v)\<close> on a scalar) and
  \<open>OverflowError\<close> (\<^verbatim>\<open>float(i)\<close> on an integer too large for a float).
  \<open>UnsupportedOperator\<close> carries the operator's type and name; it is the failure of the
  conversion driver.
\<close>

datatype error =
    IndexError
  | ValueError
  | TypeError
  | OverflowError
  | UnsupportedOperator string string

text \<open>
  Values found in the constant table and in operator attributes: the notebook reads an
  integer (\<open>k\<close>), a boolean (\<open>sorted\<close>) and integer vectors (\<open>begin\<close>, \<open>size\<close>).
\<close>

datatype pyval = PyInt int | PyBool bool | PyList "int list"

text \<open>
  A Python index into a sequence of length \<open>n\<close>: a negative index counts from the end,
  anything else out of range has no position.
\<close>

definition py_index :: "int \<Rightarrow> nat \<Rightarrow> nat option" where
  "py_index i n =
     (if 0 \<le> i \<and> i < int n then Some (nat i)
      else if i < 0 \<and> - int n \<le> i then Some (nat (i + int n))
      else None)"

text \<open>\<^verbatim>\<open>xs[i]\<close>\<close>

definition getitem :: "'a list \<Rightarrow> int \<Rightarrow> error + 'a" where
  "getitem xs i =
     (case py_index i (length xs) of
        None \<Rightarrow> Inl IndexError
      | Some k \<Rightarrow> Inr (xs ! k))"

text \<open>\<^verbatim>\<open>del xs[i]\<close>: the result is the list after the deletion.\<close>

definition delitem :: "'a list \<Rightarrow> int \<Rightarrow> error + 'a list" where
  "delitem xs i =
     (case py_index i (length xs) of
        None \<Rightarrow> Inl IndexError
      | Some k \<Rightarrow> Inr (take k xs @ drop (Suc k) xs))"

text \<open>
  A computation that may raise, followed by the rest of the function: the first raise is
  the result.
\<close>

definition and_then :: "error + 'a \<Rightarrow> ('a \<Rightarrow> error + 'b) \<Rightarrow> error + 'b" where
  "and_then m f = (case m of Inl e \<Rightarrow> Inl e | Inr x \<Rightarrow> f x)"

text \<open>
  A statement works on a mutable state. When it raises, the state keeps every mutation made
  before the raise, so the failure carries the state it leaves behind.
\<close>

type_synonym 's result = "(error \<times> 's) + 's"

text \<open>Statements run in the order they are written; the first raise stops the sequence.\<close>

fun run :: "('s \<Rightarrow> 's result) list \<Rightarrow> 's \<Rightarrow> 's result" where
  "run [] s = Inr s"
| "run (c # cs) s = (case c s of Inl e \<Rightarrow> Inl e | Inr s' \<Rightarrow> run cs s')"

text \<open>The state a run leaves behind, whether it raised or not.\<close>

definition final_state :: "'s result \<Rightarrow> 's" where
  "final_state r = (case r of Inl (e, s) \<Rightarrow> s | Inr s \<Rightarrow> s)"

section \<open>The target artifact\<close>

text \<open>
  Modelled from the spec: the value of a custom-layer parameter. The protobuf declaration of
  the message is not part of the notebook; the notebook only assigns its fields
  \<^verbatim>\<open>intValue\<close> and \<^verbatim>\<open>boolValue\<close>. The spec gives three variants (integer, boolean,
  float-list) that are mutually exclusive: assigning one variant leaves the other two unset.
  A value that was only created, and never assigned, has no variant.
\<close>

record param_value =
  intValue :: "int option"
  boolValue :: "bool option"
  floatListValue :: "real list option"

definition unset_value :: param_value where
  "unset_value = \<lparr>intValue = None, boolValue = None, floatListValue = None\<rparr>"

text \<open>
  Modelled from the spec: the assignment of one variant, which the protobuf message (not
  part of the notebook) implements. "Exactly one of integer/boolean/float-list must be set
  per parameter - these are mutually exclusive variants, not independently settable
  fields": the assigned variant is set, the other two are cleared. The notebook assigns
  \<^verbatim>\<open>intValue\<close> and \<^verbatim>\<open>boolValue\<close>; the float-list variant is the spec's.
\<close>

definition set_intValue :: "int \<Rightarrow> param_value \<Rightarrow> param_value" where
  "set_intValue i v = v\<lparr>intValue := Some i, boolValue := None, floatListValue := None\<rparr>"

definition set_boolValue :: "bool \<Rightarrow> param_value \<Rightarrow> param_value" where
  "set_boolValue b v = v\<lparr>intValue := None, boolValue := Some b, floatListValue := None\<rparr>"

definition set_floatListValue :: "real list \<Rightarrow> param_value \<Rightarrow> param_value" where
  "set_floatListValue fs v = v\<lparr>intValue := None, boolValue := None, floatListValue := Some fs\<rparr>"

text \<open>How many of the three variants a value holds.\<close>

definition variants_set :: "param_value \<Rightarrow> nat" where
  "variants_set v =
     (if intValue v = None then 0 else 1) + (if boolValue v = None then 0 else 1)
       + (if floatListValue v = None then 0 else 1)"

text \<open>
  What a 32-bit \<^verbatim>\<open>floatValue\<close> entry of a weight array holds: a finite number or an
  infinity (\<open>Infinity True\<close> the positive one).
\<close>

datatype float_value = Finite real | Infinity bool

text \<open>
  \<^verbatim>\<open>CustomLayerParams\<close>: the fields the notebook writes are \<^verbatim>\<open>className\<close>,
  \<^verbatim>\<open>description\<close>, the map \<^verbatim>\<open>parameters\<close> and the repeated \<^verbatim>\<open>weights\<close>, each weight
  holding a repeated \<^verbatim>\<open>floatValue\<close>.
\<close>

record custom_layer_params =
  className :: string
  description :: string
  parameters :: "string \<rightharpoonup> param_value"
  weights :: "float_value list list"

text \<open>\<^verbatim>\<open>NeuralNetwork_pb2.CustomLayerParams()\<close>: a fresh message, every field empty.\<close>

definition CustomLayerParams :: custom_layer_params where
  "CustomLayerParams =
     \<lparr>className = [], description = [], parameters = Map.empty, weights = []\<rparr>"

text \<open>
  A layer of the target model: its name, its input and output references (the fields
  \<^verbatim>\<open>name\<close>, \<^verbatim>\<open>input\<close> and \<^verbatim>\<open>output\<close>; the last two are keywords here, so all
  three carry the prefix \<open>layer_\<close>), and the oneof \<^verbatim>\<open>layer\<close> that tags the layer type.
  \<open>Other t\<close> is a standard layer of type \<open>t\<close>.
\<close>

datatype layer_oneof = Custom custom_layer_params | Other string

record nn_layer =
  layer_name :: string
  layer_input :: "string list"
  layer_output :: "string list"
  layer :: layer_oneof

text \<open>\<^verbatim>\<open>layer.WhichOneof('layer')\<close>\<close>

definition WhichOneof :: "nn_layer \<Rightarrow> string" where
  "WhichOneof l = (case layer l of Custom p \<Rightarrow> ''custom'' | Other t \<Rightarrow> t)"

text \<open>
  \<^verbatim>\<open>layer.custom\<close>: the custom message of the layer. Reading it on a layer of another type
  gives an empty message; writing into it (below) makes the layer a custom layer.
\<close>

definition custom :: "nn_layer \<Rightarrow> custom_layer_params" where
  "custom l = (case layer l of Custom p \<Rightarrow> p | Other t \<Rightarrow> CustomLayerParams)"

text \<open>\<^verbatim>\<open>params.parameters[key]\<close>: the entry under \<open>key\<close>, created unset when it is missing.\<close>

definition parameter_at :: "custom_layer_params \<Rightarrow> string \<Rightarrow> param_value" where
  "parameter_at p key = (case parameters p key of None \<Rightarrow> unset_value | Some v \<Rightarrow> v)"

text \<open>\<^verbatim>\<open>params.parameters[key].intValue = i\<close> and \<^verbatim>\<open>params.parameters[key].boolValue = b\<close>\<close>

definition assign_intValue :: "string \<Rightarrow> int \<Rightarrow> custom_layer_params \<Rightarrow> custom_layer_params" where
  "assign_intValue key i p =
     p\<lparr>parameters := (parameters p)(key \<mapsto> set_intValue i (parameter_at p key))\<rparr>"

definition assign_boolValue :: "string \<Rightarrow> bool \<Rightarrow> custom_layer_params \<Rightarrow> custom_layer_params" where
  "assign_boolValue key b p =
     p\<lparr>parameters := (parameters p)(key \<mapsto> set_boolValue b (parameter_at p key))\<rparr>"

section \<open>The patching cell\<close>

text \<open>
  \<^verbatim>\<open>
  nn_layers = coremltools.models.utils._get_nn_layers(spec)
  del nn_layers[3].input[1]
  del nn_layers[3].output[1]
  nn_layers[3].custom.parameters["k"].intValue = 3
  nn_layers[3].custom.parameters["sorted"].boolValue = False
  \<close>
  The state is the layer list of the spec, mutated in place. Every statement first reads
  \<^verbatim>\<open>nn_layers[n]\<close>, which raises when the list has no such layer.
\<close>

definition on_layer :: "int \<Rightarrow> (nn_layer \<Rightarrow> error + nn_layer) \<Rightarrow> nn_layer list \<Rightarrow> nn_layer list result" where
  "on_layer n f nn_layers =
     (case py_index n (length nn_layers) of
        None \<Rightarrow> Inl (IndexError, nn_layers)
      | Some k \<Rightarrow>
          (case f (nn_layers ! k) of
             Inl e \<Rightarrow> Inl (e, nn_layers)
           | Inr l \<Rightarrow> Inr (nn_layers[k := l])))"

definition del_input :: "int \<Rightarrow> nn_layer \<Rightarrow> error + nn_layer" where
  "del_input i l =
     (case delitem (layer_input l) i of Inl e \<Rightarrow> Inl e | Inr xs \<Rightarrow> Inr (l\<lparr>layer_input := xs\<rparr>))"

definition del_output :: "int \<Rightarrow> nn_layer \<Rightarrow> error + nn_layer" where
  "del_output i l =
     (case delitem (layer_output l) i of Inl e \<Rightarrow> Inl e | Inr xs \<Rightarrow> Inr (l\<lparr>layer_output := xs\<rparr>))"

definition set_int_parameter :: "string \<Rightarrow> int \<Rightarrow> nn_layer \<Rightarrow> error + nn_layer" where
  "set_int_parameter key i l = Inr (l\<lparr>layer := Custom (assign_intValue key i (custom l))\<rparr>)"

definition set_bool_parameter :: "string \<Rightarrow> bool \<Rightarrow> nn_layer \<Rightarrow> error + nn_layer" where
  "set_bool_parameter key b l = Inr (l\<lparr>layer := Custom (assign_boolValue key b (custom l))\<rparr>)"

definition patch_cell :: "nn_layer list \<Rightarrow> nn_layer list result" where
  "patch_cell =
     run [on_layer 3 (del_input 1),
          on_layer 3 (del_output 1),
          on_layer 3 (set_int_parameter ''k'' 3),
          on_layer 3 (set_bool_parameter ''sorted'' False)]"

text \<open>
  The cell removes one slot of each list. A caller who removes several slots of one list
  writes several \<^verbatim>\<open>del\<close> statements, which run in the order written.
\<close>

definition del_stmt :: "int \<Rightarrow> 'a list \<Rightarrow> 'a list result" where
  "del_stmt i xs = (case delitem xs i of Inl e \<Rightarrow> Inl (e, xs) | Inr ys \<Rightarrow> Inr ys)"

definition del_all :: "int list \<Rightarrow> 'a list \<Rightarrow> 'a list result" where
  "del_all idxs = run (map del_stmt idxs)"

section \<open>The source graph and the conversion callbacks\<close>

text \<open>
  What the callbacks read of a TensorFlow operation \<^verbatim>\<open>tf_op\<close>: \<^verbatim>\<open>tf_op.name\<close>,
  \<^verbatim>\<open>tf_op.type\<close>, the names of \<^verbatim>\<open>tf_op.inputs\<close> and \<^verbatim>\<open>tf_op.outputs\<close>, and its
  attributes.
\<close>

record operator =
  op_name :: string
  op_type :: string
  op_inputs :: "string list"
  op_outputs :: "string list"
  op_attrs :: "string \<rightharpoonup> pyval"

text \<open>\<^verbatim>\<open>tf_op.get_attr(key)\<close> raises \<open>ValueError\<close> when the operation has no such attribute.\<close>

definition get_attr :: "operator \<Rightarrow> string \<Rightarrow> error + pyval" where
  "get_attr tf_op key = (case op_attrs tf_op key of None \<Rightarrow> Inl ValueError | Some v \<Rightarrow> Inr v)"

text \<open>\<^verbatim>\<open>d.get(key, default)\<close>\<close>

definition dict_get :: "('k \<rightharpoonup> 'v) \<Rightarrow> 'k \<Rightarrow> 'v \<Rightarrow> 'v" where
  "dict_get d key dflt = (case d key of None \<Rightarrow> dflt | Some v \<Rightarrow> v)"

text \<open>
  The typed fields check what is assigned to them. A Python boolean is an integer, so an
  integer field takes it and a boolean field takes an integer; a list is refused.
\<close>

fun as_int :: "pyval \<Rightarrow> error + int" where
  "as_int (PyInt i) = Inr i"
| "as_int (PyBool b) = Inr (if b then 1 else 0)"
| "as_int (PyList v) = Inl TypeError"

fun as_bool :: "pyval \<Rightarrow> error + bool" where
  "as_bool (PyBool b) = Inr b"
| "as_bool (PyInt i) = Inr (i \<noteq> 0)"
| "as_bool (PyList v) = Inl TypeError"

text \<open>
  \<^verbatim>\<open>float(i)\<close> stored into a 32-bit \<^verbatim>\<open>floatValue\<close>. An integer of magnitude up to
  \<open>2 ^ 24\<close> is stored exactly. An integer of magnitude \<open>2 ^ 1024\<close> or more is too large
  for a float: \<^verbatim>\<open>float\<close> raises \<open>OverflowError\<close>. Between the two the outcome is
  decided by floating-point rounding and by the field's store, which are not part of the
  notebook: a rounded number (16777217 is stored as 16777216), an infinity, or a raise
  close to the top of the range. That outcome is the parameter \<open>inexact\<close>.
\<close>

definition py_float :: "(int \<Rightarrow> error + float_value) \<Rightarrow> int \<Rightarrow> error + float_value" where
  "py_float inexact i =
     (if abs i \<le> 2 ^ 24 then Inr (Finite (real_of_int i))
      else if 2 ^ 1024 \<le> abs i then Inl OverflowError
      else inexact i)"

text \<open>
  \<^verbatim>\<open>floatValue.extend(map(float, v))\<close> on a list: the entries are converted in order and
  the first raise stops the conversion.
\<close>

fun extend_floats ::
  "(int \<Rightarrow> error + float_value) \<Rightarrow> int list \<Rightarrow> error + float_value list" where
  "extend_floats inexact [] = Inr []"
| "extend_floats inexact (i # v) =
     and_then (py_float inexact i) (\<lambda>x.
     and_then (extend_floats inexact v) (\<lambda>xs. Inr (x # xs)))"

text \<open>\<^verbatim>\<open>map(float, v)\<close> needs a sequence: on a scalar it raises \<open>TypeError\<close>.\<close>

fun map_float :: "(int \<Rightarrow> error + float_value) \<Rightarrow> pyval \<Rightarrow> error + float_value list" where
  "map_float inexact (PyList v) = extend_floats inexact v"
| "map_float inexact (PyInt i) = Inl TypeError"
| "map_float inexact (PyBool b) = Inl TypeError"

text \<open>The builder handle: its state is the list of layers added so far.\<close>

type_synonym nn_builder = "nn_layer list"

text \<open>
  Modelled from the spec: the builder's \<^verbatim>\<open>add_custom\<close>, which the callbacks call and
  which is not part of the notebook. By the spec it is the "add custom layer" operation
  (name, input names, output names, parameter block), and it appends one layer to the
  layer list.
\<close>

definition add_custom ::
  "string \<Rightarrow> string list \<Rightarrow> string list \<Rightarrow> custom_layer_params \<Rightarrow> nn_builder \<Rightarrow> nn_builder" where
  "add_custom nm input_names output_names custom_proto_spec b =
     b @ [\<lparr>layer_name = nm, layer_input = input_names, layer_output = output_names,
           layer = Custom custom_proto_spec\<rparr>]"

text \<open>
  A callback receives the keyword arguments \<^verbatim>\<open>op\<close>, \<^verbatim>\<open>nn_builder\<close> and
  \<^verbatim>\<open>constant_inputs\<close>, returns nothing and works on the builder. A callback that raises
  has not touched the builder: both callbacks of the notebook call the builder last.
\<close>

type_synonym callback = "operator \<Rightarrow> nn_builder \<Rightarrow> (string \<rightharpoonup> pyval) \<Rightarrow> error + nn_builder"

text \<open>
  \<^verbatim>\<open>
  def _convert_topk(**kwargs):
      tf_op = kwargs["op"]
      coreml_nn_builder = kwargs["nn_builder"]
      constant_inputs = kwargs["constant_inputs"]
      params = NeuralNetwork_pb2.CustomLayerParams()
      params.className = 'Top_K'
      params.description = "Custom layer that corresponds to the top_k TF op"
      params.parameters["sorted"].boolValue = tf_op.get_attr('sorted')
      k = constant_inputs.get(tf_op.inputs[1].name, 3)
      params.parameters["k"].intValue = k
      coreml_nn_builder.add_custom(name=tf_op.name,
                                  input_names=[tf_op.inputs[0].name],
                                  output_names=[tf_op.outputs[0].name],
                                  custom_proto_spec=params)
  \<close>
\<close>

definition convert_topk :: callback where
  "convert_topk tf_op coreml_nn_builder constant_inputs =
     (let params = CustomLayerParams
            \<lparr>className := ''Top_K'',
             description := ''Custom layer that corresponds to the top_k TF op''\<rparr>
      in and_then (get_attr tf_op ''sorted'') (\<lambda>a.
         and_then (as_bool a) (\<lambda>srt.
         let params = assign_boolValue ''sorted'' srt params
         in and_then (getitem (op_inputs tf_op) 1) (\<lambda>in1.
            let k = dict_get constant_inputs in1 (PyInt 3)
            in and_then (as_int k) (\<lambda>kv.
               let params = assign_intValue ''k'' kv params
               in and_then (getitem (op_inputs tf_op) 0) (\<lambda>in0.
                  and_then (getitem (op_outputs tf_op) 0) (\<lambda>out0.
                  Inr (add_custom (op_name tf_op) [in0] [out0] params coreml_nn_builder))))))))"

text \<open>
  \<^verbatim>\<open>
  def _convert_slice(**kwargs):
      tf_op = kwargs["op"]
      coreml_nn_builder = kwargs["nn_builder"]
      constant_inputs = kwargs["constant_inputs"]
      params = NeuralNetwork_pb2.CustomLayerParams()
      params.className = 'Slice'
      params.description = "Custom layer that corresponds to the slice TF op"
      begin = constant_inputs.get(tf_op.inputs[1].name, [0,0,0,0])
      size = constant_inputs.get(tf_op.inputs[2].name, [0,0,0,0])
      begin_as_weights = params.weights.add()
      begin_as_weights.floatValue.extend(map(float, begin))
      size_as_weights = params.weights.add()
      size_as_weights.floatValue.extend(map(float, size))
      coreml_nn_builder.add_custom(name=tf_op.name,
                                  input_names=[tf_op.inputs[0].name],
                                  output_names=[tf_op.outputs[0].name],
                                  custom_proto_spec=params)
  \<close>
\<close>

text \<open>
  The first argument is the outcome of the float conversion outside the exact range (see
  \<open>py_float\<close>); the other three are the callback's keyword arguments.
\<close>

definition convert_slice :: "(int \<Rightarrow> error + float_value) \<Rightarrow> callback" where
  "convert_slice inexact tf_op coreml_nn_builder constant_inputs =
     (let params = CustomLayerParams
            \<lparr>className := ''Slice'',
             description := ''Custom layer that corresponds to the slice TF op''\<rparr>
      in and_then (getitem (op_inputs tf_op) 1) (\<lambda>in1.
         let begin_v = dict_get constant_inputs in1 (PyList [0, 0, 0, 0])
         in and_then (getitem (op_inputs tf_op) 2) (\<lambda>in2.
            let size_v = dict_get constant_inputs in2 (PyList [0, 0, 0, 0])
            in and_then (map_float inexact begin_v) (\<lambda>begin_as_weights.
               let params = params\<lparr>weights := weights params @ [begin_as_weights]\<rparr>
               in and_then (map_float inexact size_v) (\<lambda>size_as_weights.
                  let params = params\<lparr>weights := weights params @ [size_as_weights]\<rparr>
                  in and_then (getitem (op_inputs tf_op) 0) (\<lambda>in0.
                     and_then (getitem (op_outputs tf_op) 0) (\<lambda>out0.
                     Inr (add_custom (op_name tf_op) [in0] [out0] params coreml_nn_builder))))))))"

section \<open>The custom layer resolver and the conversion driver\<close>

text \<open>
  Modelled from the spec: the callback registry. The converter behind
  \<^verbatim>\<open>tfcoreml.convert\<close> is not part of the notebook, which only calls it. By the spec the
  registry is keyed by exact operator name and by operator type, as two maps.
  The notebook passes one dictionary \<^verbatim>\<open>custom_conversion_functions\<close> whose keys are
  "either op types or op names": \<open>registry_of_dict\<close> reads it under both keyings.
\<close>

record registry =
  by_name :: "string \<rightharpoonup> callback"
  by_type :: "string \<rightharpoonup> callback"

definition registry_of_dict :: "(string \<rightharpoonup> callback) \<Rightarrow> registry" where
  "registry_of_dict d = \<lparr>by_name = d, by_type = d\<rparr>"

text \<open>
  Modelled from the spec: the priority-ordered lookup of the resolver, which is not part of
  the notebook. "First consult an exact-name map, fall back to a type map, else apply the
  default placeholder strategy."
\<close>

datatype strategy = ByName callback | ByType callback | DefaultPlaceholder

definition lookup_callback :: "registry \<Rightarrow> operator \<Rightarrow> strategy" where
  "lookup_callback reg tf_op =
     (case by_name reg (op_name tf_op) of
        Some cb \<Rightarrow> ByName cb
      | None \<Rightarrow>
          (case by_type reg (op_type tf_op) of
             Some cb \<Rightarrow> ByType cb
           | None \<Rightarrow> DefaultPlaceholder))"

text \<open>
  Modelled from the spec: the default placeholder, which the converter (not part of the
  notebook) synthesises. "Class-name derived deterministically from the operator's type,
  empty parameter mapping, description left blank, inputs/outputs copied verbatim from the
  Operator Descriptor." The spec does not give the derivation of the class-name, so it is
  the parameter \<open>class_name_of\<close>.
\<close>

definition default_placeholder :: "(string \<Rightarrow> string) \<Rightarrow> operator \<Rightarrow> nn_layer" where
  "default_placeholder class_name_of tf_op =
     \<lparr>layer_name = op_name tf_op,
      layer_input = op_inputs tf_op,
      layer_output = op_outputs tf_op,
      layer = Custom \<lparr>className = class_name_of (op_type tf_op), description = [],
                      parameters = Map.empty, weights = []\<rparr>\<rparr>"

text \<open>
  Modelled from the spec: the resolver for one unsupported operator, which is not part of
  the notebook. A registered callback is invoked with the operator, the builder and the
  constant table. Without a callback the default placeholder is appended when automatic
  insertion is enabled; otherwise resolution fails with the "unsupported operator" condition
  that identifies the operator's type and name.
\<close>

definition resolve ::
  "(string \<Rightarrow> string) \<Rightarrow> bool \<Rightarrow> registry \<Rightarrow> (string \<rightharpoonup> pyval) \<Rightarrow> operator \<Rightarrow> nn_builder
     \<Rightarrow> error + nn_builder" where
  "resolve class_name_of add_custom_layers reg constant_inputs tf_op b =
     (case lookup_callback reg tf_op of
        ByName cb \<Rightarrow> cb tf_op b constant_inputs
      | ByType cb \<Rightarrow> cb tf_op b constant_inputs
      | DefaultPlaceholder \<Rightarrow>
          if add_custom_layers then Inr (b @ [default_placeholder class_name_of tf_op])
          else Inl (UnsupportedOperator (op_type tf_op) (op_name tf_op)))"

text \<open>
  Modelled from the spec: the conversion driver, which is not part of the notebook. It
  walks the operators of the frozen graph in topological order. \<open>standard tf_op\<close> is the
  direct translation of an operator into layers of the target schema, \<open>None\<close> when the
  operator has no direct equivalent; such an operator goes to the resolver. Every failure
  is fatal: the first one aborts the conversion.
\<close>

fun convert_ops ::
  "(operator \<Rightarrow> nn_layer list option) \<Rightarrow> (string \<Rightarrow> string) \<Rightarrow> bool \<Rightarrow> registry
     \<Rightarrow> (string \<rightharpoonup> pyval) \<Rightarrow> operator list \<Rightarrow> nn_builder \<Rightarrow> error + nn_builder" where
  "convert_ops standard class_name_of add_custom_layers reg constant_inputs [] b = Inr b"
| "convert_ops standard class_name_of add_custom_layers reg constant_inputs (tf_op # ops) b =
     (case standard tf_op of
        Some ls \<Rightarrow>
          convert_ops standard class_name_of add_custom_layers reg constant_inputs ops (b @ ls)
      | None \<Rightarrow>
          (case resolve class_name_of add_custom_layers reg constant_inputs tf_op b of
             Inl e \<Rightarrow> Inl e
           | Inr b' \<Rightarrow>
               convert_ops standard class_name_of add_custom_layers reg constant_inputs ops b'))"

section \<open>The layers the callbacks attach\<close>

text \<open>
  The layer \<^verbatim>\<open>_convert_topk\<close> hands to the builder when nothing raises: the operator's
  name, its first input and first output, class name \<open>Top_K\<close>, and the two parameters
  \<open>sorted\<close> (boolean) and \<open>k\<close> (integer).
\<close>

definition topk_layer :: "operator \<Rightarrow> bool \<Rightarrow> int \<Rightarrow> nn_layer" where
  "topk_layer tf_op srt kv =
     \<lparr>layer_name = op_name tf_op, layer_input = [op_inputs tf_op ! 0],
      layer_output = [op_outputs tf_op ! 0],
      layer = Custom \<lparr>className = ''Top_K'',
                description = ''Custom layer that corresponds to the top_k TF op'',
                parameters = [''sorted'' \<mapsto> set_boolValue srt unset_value,
                              ''k'' \<mapsto> set_intValue kv unset_value],
                weights = []\<rparr>\<rparr>"

text \<open>
  The layer \<^verbatim>\<open>_convert_slice\<close> hands to the builder when nothing raises: no parameters,
  and the two weight arrays \<open>begin\<close> and \<open>size\<close>.
\<close>

definition slice_layer :: "operator \<Rightarrow> float_value list \<Rightarrow> float_value list \<Rightarrow> nn_layer" where
  "slice_layer tf_op bg sz =
     \<lparr>layer_name = op_name tf_op, layer_input = [op_inputs tf_op ! 0],
      layer_output = [op_outputs tf_op ! 0],
      layer = Custom \<lparr>className = ''Slice'',
                description = ''Custom layer that corresponds to the slice TF op'',
                parameters = Map.empty,
                weights = [bg, sz]\<rparr>\<rparr>"

section \<open>The notebook's example graphs\<close>

text \<open>
  The second example: \<^verbatim>\<open>tf.nn.top_k(y, k=3, sorted = False, name='output')\<close> after a
  dense layer and a softmax. The operation has type \<open>TopKV2\<close>, takes the softmax and the
  constant \<open>k\<close> and gives the values and the indices. The tensor names follow TensorFlow's
  naming and stand for whatever names the frozen graph carries.
\<close>

definition topk_op :: operator where
  "topk_op =
     \<lparr>op_name = ''output'', op_type = ''TopKV2'',
      op_inputs = [''Softmax:0'', ''output/k:0''],
      op_outputs = [''output:0'', ''output:1''],
      op_attrs = [''sorted'' \<mapsto> PyBool False]\<rparr>"

definition topk_constants :: "string \<rightharpoonup> pyval" where
  "topk_constants = [''output/k:0'' \<mapsto> PyInt 3]"

text \<open>The three standard layers before it, so that the custom layer is \<^verbatim>\<open>nn_layers[3]\<close>.\<close>

definition topk_preceding_layers :: "nn_layer list" where
  "topk_preceding_layers =
     [\<lparr>layer_name = ''dense/BiasAdd'', layer_input = [''input:0''],
        layer_output = [''dense/BiasAdd:0''], layer = Other ''innerProduct''\<rparr>,
      \<lparr>layer_name = ''dense/Relu'', layer_input = [''dense/BiasAdd:0''],
        layer_output = [''dense/Relu:0''], layer = Other ''activation''\<rparr>,
      \<lparr>layer_name = ''Softmax'', layer_input = [''dense/Relu:0''],
        layer_output = [''Softmax:0''], layer = Other ''softmax''\<rparr>]"

text \<open>
  The third example: \<^verbatim>\<open>tf.slice(y, begin=[0,1,1,1], size=[1,2,2,2], name='output')\<close>
  after a convolution.
\<close>

definition slice_op :: operator where
  "slice_op =
     \<lparr>op_name = ''output'', op_type = ''Slice'',
      op_inputs = [''Conv2D:0'', ''output/begin:0'', ''output/size:0''],
      op_outputs = [''output:0''],
      op_attrs = Map.empty\<rparr>"

definition slice_constants :: "string \<rightharpoonup> pyval" where
  "slice_constants =
     [''output/begin:0'' \<mapsto> PyList [0, 1, 1, 1], ''output/size:0'' \<mapsto> PyList [1, 2, 2, 2]]"

text \<open>
  No entry of the examples is beyond the exact range, so the outcome outside it is never
  consulted there; the examples pass one that always raises.
\<close>

definition never_consulted :: "int \<Rightarrow> error + float_value" where
  "never_consulted i = Inl OverflowError"

text \<open>
  The softmax before the top-k, and a target schema that has a layer for the softmax only:
  every other operator has no direct equivalent.
\<close>

definition softmax_op :: operator where
  "softmax_op =
     \<lparr>op_name = ''Softmax'', op_type = ''Softmax'',
      op_inputs = [''dense/Relu:0''], op_outputs = [''Softmax:0''],
      op_attrs = Map.empty\<rparr>"

definition softmax_only :: "operator \<Rightarrow> nn_layer list option" where
  "softmax_only tf_op =
     (if op_type tf_op = ''Softmax''
      then Some [\<lparr>layer_name = op_name tf_op, layer_input = op_inputs tf_op,
                  layer_output = op_outputs tf_op, layer = Other ''softmax''\<rparr>]
      else None)"

section \<open>Facts about indexing and deletion\<close>

lemma py_index_1: "py_index 1 n = (if 1 < n then Some 1 else None)"
  by (auto simp: py_index_def)

lemma py_index_3: "py_index 3 n = (if 3 < n then Some 3 else None)"
  by (auto simp: py_index_def)

lemma getitem_3: "getitem ls 3 = (if 3 < length ls then Inr (ls ! 3) else Inl IndexError)"
  by (simp add: getitem_def py_index_3)

lemma delitem_1:
  "delitem xs 1 = (if 1 < length xs then Inr (hd xs # drop 2 xs) else Inl IndexError)"
  by (cases xs) (auto simp: delitem_def py_index_1)

lemma del_stmt_nat:
  "k < length xs \<Longrightarrow> del_stmt (int k) xs = Inr (take k xs @ drop (Suc k) xs)"
  by (simp add: del_stmt_def delitem_def py_index_def)

lemma del_stmt_out_of_range:
  "py_index i (length xs) = None \<Longrightarrow> del_stmt i xs = Inl (IndexError, xs)"
  by (simp add: del_stmt_def delitem_def)

lemma del_all_out_of_range:
  "idxs \<noteq> [] \<Longrightarrow> \<forall>i\<in>set idxs. py_index i (length xs) = None \<Longrightarrow>
   del_all idxs xs = Inl (IndexError, xs)"
  by (cases idxs) (simp_all add: del_all_def del_stmt_out_of_range)

text \<open>Which positions \<open>nths\<close> keeps matters only below the length of the list.\<close>

lemma nths_eq_on:
  "(\<And>j. j < length xs \<Longrightarrow> (j \<in> A) = (j \<in> B)) \<Longrightarrow> nths xs A = nths xs B"
  unfolding nths_def
  by (rule arg_cong [where f = "map fst"], rule filter_cong) (auto simp: set_zip)

text \<open>
  Dropping the element at position \<open>length ys\<close> first does not move the positions below
  it: this is why deleting the highest index first is safe.
\<close>

lemma nths_skip:
  assumes "\<forall>j\<in>S. j < length ys"
  shows "nths (ys @ x # zs) (- insert (length ys) S) = nths (ys @ zs) (- S)"
proof -
  have t1: "nths zs {j. Suc (j + length ys) \<notin> S} = zs"
    using assms by (intro nths_all) auto
  have t2: "nths zs {j. j + length ys \<notin> S} = zs"
    using assms by (intro nths_all) auto
  have h: "nths ys (- insert (length ys) S) = nths ys (- S)"
    by (rule nths_eq_on) simp
  show ?thesis
    by (simp add: nths_append nths_Cons t1 t2 h)
qed

lemma nths_del:
  assumes "\<forall>j\<in>S. j < k" and "k < length xs"
  shows "nths (take k xs @ drop (Suc k) xs) (- S) = nths xs (- insert k S)"
proof -
  have len: "length (take k xs) = k" using assms(2) by simp
  have xs: "xs = take k xs @ xs ! k # drop (Suc k) xs"
    using assms(2) by (rule id_take_nth_drop)
  have "nths (take k xs @ xs ! k # drop (Suc k) xs) (- insert (length (take k xs)) S)
        = nths (take k xs @ drop (Suc k) xs) (- S)"
    using assms by (intro nths_skip) (simp add: min_absorb2)
  then show ?thesis using xs len by metis
qed

lemma del_all_descending:
  "sorted_wrt (>) idxs \<Longrightarrow> \<forall>i\<in>set idxs. i < length xs \<Longrightarrow>
   del_all (map int idxs) xs = Inr (nths xs (- set idxs))"
proof (induction idxs arbitrary: xs)
  case Nil
  then show ?case by (simp add: del_all_def nths_all)
next
  case (Cons i idxs)
  let ?ys = "take i xs @ drop (Suc i) xs"
  have i: "i < length xs" using Cons.prems(2) by simp
  have below: "\<forall>j\<in>set idxs. j < i" using Cons.prems(1) by auto
  have len: "length ?ys = length xs - 1" using i by simp
  have "\<forall>j\<in>set idxs. j < length ?ys" using below i len by fastforce
  moreover have "sorted_wrt (>) idxs" using Cons.prems(1) by simp
  ultimately have "del_all (map int idxs) ?ys = Inr (nths ?ys (- set idxs))"
    by (rule Cons.IH[rotated])
  moreover have "del_all (map int (i # idxs)) xs = del_all (map int idxs) ?ys"
    using del_stmt_nat[OF i] by (simp add: del_all_def)
  moreover have "nths ?ys (- set idxs) = nths xs (- set (i # idxs))"
    using nths_del[OF below i] by simp
  ultimately show ?case by simp
qed

lemma getitem_0: "getitem xs 0 = (if xs = [] then Inl IndexError else Inr (xs ! 0))"
  by (auto simp: getitem_def py_index_def)

lemma getitem_1: "getitem xs 1 = (if 1 < length xs then Inr (xs ! 1) else Inl IndexError)"
  by (simp add: getitem_def py_index_1)

lemma getitem_2: "getitem xs 2 = (if 2 < length xs then Inr (xs ! 2) else Inl IndexError)"
  by (auto simp: getitem_def py_index_def)

section \<open>Facts about the callbacks\<close>

text \<open>Each callback, with its raises in the order the source reaches them.\<close>

lemma convert_topk_unfold:
  "convert_topk tf_op b constant_inputs =
     (case op_attrs tf_op ''sorted'' of None \<Rightarrow> Inl ValueError | Some a \<Rightarrow>
        and_then (as_bool a) (\<lambda>srt.
          if \<not> 1 < length (op_inputs tf_op) then Inl IndexError
          else and_then (as_int (dict_get constant_inputs (op_inputs tf_op ! 1) (PyInt 3))) (\<lambda>kv.
            if op_outputs tf_op = [] then Inl IndexError
            else Inr (b @ [topk_layer tf_op srt kv]))))"
  by (auto simp: convert_topk_def topk_layer_def and_then_def get_attr_def getitem_0 getitem_1
      add_custom_def assign_boolValue_def assign_intValue_def parameter_at_def CustomLayerParams_def
      split: option.splits sum.splits)

lemma convert_topk_Inr:
  assumes "convert_topk tf_op b constant_inputs = Inr b'"
  shows "\<exists>srt kv. b' = b @ [topk_layer tf_op srt kv] \<and> 1 < length (op_inputs tf_op)
           \<and> op_outputs tf_op \<noteq> []"
  using assms
  by (auto simp: convert_topk_unfold and_then_def split: option.splits sum.splits if_splits)

text \<open>Within the exact range every entry is stored as it is, whatever the rounding.\<close>

lemma extend_floats_exact:
  "\<forall>x\<in>set v. abs x \<le> 2 ^ 24 \<Longrightarrow>
   extend_floats inexact v = Inr (map (\<lambda>x. Finite (real_of_int x)) v)"
  by (induction v) (simp_all add: py_float_def and_then_def)

lemma extend_floats_zeros:
  "extend_floats inexact [0, 0, 0, 0] = Inr [Finite 0, Finite 0, Finite 0, Finite 0]"
  by (simp add: py_float_def and_then_def)

text \<open>An entry of magnitude \<open>2 ^ 1024\<close> or more raises, whatever the rounding.\<close>

lemma extend_floats_overflow:
  "2 ^ 1024 \<le> abs i \<Longrightarrow> extend_floats inexact [i] = Inl OverflowError"
proof -
  assume big: "2 ^ 1024 \<le> abs i"
  have "(2::int) ^ 24 < 2 ^ 1024" by (rule power_strict_increasing) simp_all
  then have "\<not> abs i \<le> 2 ^ 24" using big by linarith
  then show ?thesis using big by (simp add: py_float_def and_then_def)
qed

lemma convert_slice_unfold:
  "convert_slice inexact tf_op b constant_inputs =
     (if \<not> 2 < length (op_inputs tf_op) then Inl IndexError
      else and_then (map_float inexact (dict_get constant_inputs (op_inputs tf_op ! 1) (PyList [0, 0, 0, 0]))) (\<lambda>bg.
           and_then (map_float inexact (dict_get constant_inputs (op_inputs tf_op ! 2) (PyList [0, 0, 0, 0]))) (\<lambda>sz.
             if op_outputs tf_op = [] then Inl IndexError
             else Inr (b @ [slice_layer tf_op bg sz]))))"
  by (auto simp: convert_slice_def slice_layer_def and_then_def getitem_0 getitem_1 getitem_2
      add_custom_def CustomLayerParams_def Let_def
      split: option.splits sum.splits)

lemma convert_slice_Inr:
  assumes "convert_slice inexact tf_op b constant_inputs = Inr b'"
  shows "\<exists>bg sz. b' = b @ [slice_layer tf_op bg sz] \<and> 2 < length (op_inputs tf_op)
           \<and> op_outputs tf_op \<noteq> []"
  using assms
  by (auto simp: convert_slice_unfold and_then_def split: option.splits sum.splits if_splits)

section \<open>Facts about the patching cell\<close>

text \<open>
  The cell, statement by statement: it needs a fourth layer, then a second input, then a
  second output. When the second output is missing the input has already been removed.
\<close>

lemma patch_cell_unfold:
  "patch_cell ls =
     (if \<not> 3 < length ls then Inl (IndexError, ls)
      else if \<not> 1 < length (layer_input (ls ! 3)) then Inl (IndexError, ls)
      else if \<not> 1 < length (layer_output (ls ! 3))
        then Inl (IndexError,
               ls[3 := (ls ! 3)\<lparr>layer_input := hd (layer_input (ls ! 3)) # drop 2 (layer_input (ls ! 3))\<rparr>])
      else Inr (ls[3 := (ls ! 3)
               \<lparr>layer_input := hd (layer_input (ls ! 3)) # drop 2 (layer_input (ls ! 3)),
                layer_output := hd (layer_output (ls ! 3)) # drop 2 (layer_output (ls ! 3)),
                layer := Custom (assign_boolValue ''sorted'' False
                                  (assign_intValue ''k'' 3 (custom (ls ! 3))))\<rparr>]))"
  by (simp add: patch_cell_def on_layer_def py_index_3 del_input_def del_output_def delitem_1
      set_int_parameter_def set_bool_parameter_def custom_def)

lemma patch_cell_out_of_range:
  assumes "\<forall>l. getitem ls 3 = Inr l \<longrightarrow> py_index 1 (length (layer_input l)) = None"
  shows "patch_cell ls = Inl (IndexError, ls)"
  using assms by (auto simp: patch_cell_unfold getitem_3 py_index_1 split: if_splits)

lemma patch_cell_twice:
  assumes "patch_cell ls = Inr patched" "getitem ls 3 = Inr l" "length (layer_input l) = 2"
  shows "patch_cell patched = Inl (IndexError, patched)"
proof -
  have len: "3 < length ls" and l: "l = ls ! 3"
    using assms(2) by (auto simp: getitem_3 split: if_splits)
  from assms(1) have "3 < length patched \<and> length (layer_input (patched ! 3)) = 1"
    using len l assms(3) by (auto simp: patch_cell_unfold split: if_splits)
  then show ?thesis by (simp add: patch_cell_unfold)
qed

section \<open>Removal of slots: order\<close>

text \<open>
  Claim C4, as the spec states it: removing a set of slot indices gives the same final list
  whatever order the caller lists them in, because the patcher normalises the order to
  descending. The notebook has no such normalisation: each \<^verbatim>\<open>del\<close> runs when it is
  reached. On the spec's own example, a three-input layer and the indices 1 and 2: in the
  order 1, 2 the second deletion raises and the list is left as \<open>[a, c]\<close>; in the order
  2, 1 both deletions succeed and leave \<open>[a]\<close>. On four inputs both orders succeed and
  leave different lists.
\<close>

theorem removal_order_counterexample:
  "del_all [1, 2] [''a'', ''b'', ''c''] = Inl (IndexError, [''a'', ''c'']) \<and>
   del_all [2, 1] [''a'', ''b'', ''c''] = Inr [''a''] \<and>
   final_state (del_all [1, 2] [''a'', ''b'', ''c''])
     \<noteq> final_state (del_all [2, 1] [''a'', ''b'', ''c'']) \<and>
   del_all [1, 2] [''a'', ''b'', ''c'', ''d''] = Inr [''a'', ''c''] \<and>
   del_all [2, 1] [''a'', ''b'', ''c'', ''d''] = Inr [''a'', ''d'']"
  by (simp add: final_state_def del_all_def del_stmt_def delitem_def py_index_def)

text \<open>
  Claim C4, amended: the deletions run one at a time in the caller's order. When the caller
  lists in-range indices in strictly descending order, every deletion succeeds and the
  final list is the original list without exactly the slots at those positions, so it
  depends on the index set alone. In particular, removing index 1 from \<open>[a, b, c]\<close> gives
  \<open>[a, c]\<close>.
\<close>

theorem descending_removal_is_positional:
  "(sorted_wrt (>) idxs \<and> (\<forall>i\<in>set idxs. i < length xs)
      \<longrightarrow> del_all (map int idxs) xs = Inr (nths xs (- set idxs)))
   \<and> del_all [1] [a, b, c] = Inr [a, c]"
proof (intro conjI impI)
  assume "sorted_wrt (>) idxs \<and> (\<forall>i\<in>set idxs. i < length xs)"
  then show "del_all (map int idxs) xs = Inr (nths xs (- set idxs))"
    by (simp add: del_all_descending)
next
  show "del_all [1] [a, b, c] = Inr [a, c]"
    by (simp add: del_all_def del_stmt_def delitem_1)
qed

theorem descending_removal_is_positional_witness:
  "sorted_wrt (>) [2, 1 :: nat] \<and> Max (set [2, 1 :: nat]) < length [''a'', ''b'', ''c'']
   \<and> del_all (map int [2, 1]) [''a'', ''b'', ''c''] = Inr [''a'']
   \<and> del_all [1] [''a'', ''b'', ''c''] = Inr [''a'', ''c'']"
  using descending_removal_is_positional [of "[2, 1]" "[''a'', ''b'', ''c'']" "''a''" "''b''" "''c''"]
  by (simp add: nths_Cons)

section \<open>Removal of slots: a second application\<close>

text \<open>
  Claim C5: applying the removal a second time, after the indices no longer exist, is a
  no-op or an explicit error, and the list is not touched. A \<^verbatim>\<open>del\<close> at an index that
  has no position raises \<open>IndexError\<close> and leaves the list as it was; a run of such
  deletions raises at the first one, and an empty run does nothing. For the cell itself:
  when the fourth layer has no second input (or there is no fourth layer) the cell raises
  at its first statement and the whole layer list is unchanged; so after the cell has
  succeeded on a layer with two inputs, running it again raises and changes nothing.
\<close>

theorem reapplied_removal_keeps_list:
  "(py_index i (length xs) = None \<longrightarrow> del_stmt i xs = Inl (IndexError, xs))
   \<and> ((\<forall>i\<in>set idxs. py_index i (length xs) = None)
        \<longrightarrow> del_all idxs xs = (if idxs = [] then Inr xs else Inl (IndexError, xs)))
   \<and> ((\<forall>l. getitem ls 3 = Inr l \<longrightarrow> py_index 1 (length (layer_input l)) = None)
        \<longrightarrow> patch_cell ls = Inl (IndexError, ls))
   \<and> (patch_cell ls = Inr patched \<and> getitem ls 3 = Inr l \<and> length (layer_input l) = 2
        \<longrightarrow> patch_cell patched = Inl (IndexError, patched))"
proof (intro conjI impI)
  assume "py_index i (length xs) = None"
  then show "del_stmt i xs = Inl (IndexError, xs)"
    by (rule del_stmt_out_of_range)
next
  assume "\<forall>i\<in>set idxs. py_index i (length xs) = None"
  then show "del_all idxs xs = (if idxs = [] then Inr xs else Inl (IndexError, xs))"
    by (cases "idxs = []") (simp_all add: del_all_out_of_range, simp add: del_all_def)
next
  assume "\<forall>l. getitem ls 3 = Inr l \<longrightarrow> py_index 1 (length (layer_input l)) = None"
  then show "patch_cell ls = Inl (IndexError, ls)"
    by (rule patch_cell_out_of_range)
next
  assume "patch_cell ls = Inr patched \<and> getitem ls 3 = Inr l \<and> length (layer_input l) = 2"
  then show "patch_cell patched = Inl (IndexError, patched)"
    using patch_cell_twice by blast
qed

theorem reapplied_removal_keeps_list_witness:
  "py_index 1 (length [''Softmax:0'']) = None
   \<and> del_stmt 1 [''Softmax:0''] = Inl (IndexError, [''Softmax:0''])
   \<and> del_all [1] [''Softmax:0''] = Inl (IndexError, [''Softmax:0''])
   \<and> getitem (topk_preceding_layers @ [topk_layer topk_op False 3]) 3
        = Inr (topk_layer topk_op False 3)
   \<and> py_index 1 (length (layer_input (topk_layer topk_op False 3))) = None
   \<and> patch_cell (topk_preceding_layers @ [topk_layer topk_op False 3])
        = Inl (IndexError, topk_preceding_layers @ [topk_layer topk_op False 3])
   \<and> length (layer_input (default_placeholder id topk_op)) = 2
   \<and> patch_cell (topk_preceding_layers @ [default_placeholder id topk_op])
        = Inr (final_state (patch_cell (topk_preceding_layers @ [default_placeholder id topk_op])))
   \<and> patch_cell (final_state (patch_cell (topk_preceding_layers @ [default_placeholder id topk_op])))
        = Inl (IndexError,
            final_state (patch_cell (topk_preceding_layers @ [default_placeholder id topk_op])))"
  using
    reapplied_removal_keeps_list [of 1 "[''Softmax:0'']" "[1]"
      "topk_preceding_layers @ [topk_layer topk_op False 3]"]
    reapplied_removal_keeps_list [of 1 "[''Softmax:0'']" "[1]"
      "topk_preceding_layers @ [default_placeholder id topk_op]"
      "final_state (patch_cell (topk_preceding_layers @ [default_placeholder id topk_op]))"
      "default_placeholder id topk_op"]
  by (simp add: py_index_1 getitem_3 patch_cell_unfold final_state_def
      topk_preceding_layers_def default_placeholder_def topk_op_def topk_layer_def)

section \<open>The resolver: which strategy is chosen\<close>

lemma convert_ops_append:
  "convert_ops standard cn acl reg constant_inputs (pre @ post) b =
     (case convert_ops standard cn acl reg constant_inputs pre b of
        Inl e \<Rightarrow> Inl e
      | Inr b' \<Rightarrow> convert_ops standard cn acl reg constant_inputs post b')"
  by (induction pre arbitrary: b) (auto split: option.splits sum.splits)

lemma resolve_unsupported:
  "\<not> acl \<Longrightarrow> by_name reg (op_name tf_op) = None \<Longrightarrow> by_type reg (op_type tf_op) = None \<Longrightarrow>
   resolve cn acl reg constant_inputs tf_op b = Inl (UnsupportedOperator (op_type tf_op) (op_name tf_op))"
  by (simp add: resolve_def lookup_callback_def)

text \<open>
  Claim C1: a callback registered under the operator's exact name is the one invoked, also
  when a callback is registered under the operator's type; the type map is consulted only
  when the name map has no entry, and the default placeholder strategy only when neither
  has one. The resolver is modelled from the spec.
\<close>

theorem name_keyed_callback_wins:
  "(by_name reg (op_name tf_op) = Some cb
      \<longrightarrow> lookup_callback reg tf_op = ByName cb
          \<and> resolve cn acl reg constant_inputs tf_op b = cb tf_op b constant_inputs)
   \<and> (by_name reg (op_name tf_op) = None \<and> by_type reg (op_type tf_op) = Some cb
      \<longrightarrow> lookup_callback reg tf_op = ByType cb
          \<and> resolve cn acl reg constant_inputs tf_op b = cb tf_op b constant_inputs)
   \<and> (by_name reg (op_name tf_op) = None \<and> by_type reg (op_type tf_op) = None
      \<longrightarrow> lookup_callback reg tf_op = DefaultPlaceholder
          \<and> resolve cn acl reg constant_inputs tf_op b =
              (if acl then Inr (b @ [default_placeholder cn tf_op])
               else Inl (UnsupportedOperator (op_type tf_op) (op_name tf_op))))"
  by (simp add: resolve_def lookup_callback_def)

text \<open>
  The slice operator is named \<open>output\<close>. With \<^verbatim>\<open>_convert_slice\<close> registered under that
  name and \<^verbatim>\<open>_convert_topk\<close> under the type \<open>Slice\<close>, the slice callback runs. The top-k
  operator with a callback under its type only gets that callback; with no callback and
  automatic insertion off it is refused.
\<close>

theorem name_keyed_callback_wins_witness:
  "by_name \<lparr>by_name = [''output'' \<mapsto> convert_slice never_consulted], by_type = [''Slice'' \<mapsto> convert_topk]\<rparr>
      (op_name slice_op) = Some (convert_slice never_consulted)
   \<and> by_type \<lparr>by_name = [''output'' \<mapsto> convert_slice never_consulted], by_type = [''Slice'' \<mapsto> convert_topk]\<rparr>
      (op_type slice_op) = Some convert_topk
   \<and> resolve id True \<lparr>by_name = [''output'' \<mapsto> convert_slice never_consulted], by_type = [''Slice'' \<mapsto> convert_topk]\<rparr>
        slice_constants slice_op []
      = Inr [slice_layer slice_op [Finite 0, Finite 1, Finite 1, Finite 1]
             [Finite 1, Finite 2, Finite 2, Finite 2]]
   \<and> by_name \<lparr>by_name = Map.empty, by_type = [''TopKV2'' \<mapsto> convert_topk]\<rparr> (op_name topk_op) = None
   \<and> resolve id True \<lparr>by_name = Map.empty, by_type = [''TopKV2'' \<mapsto> convert_topk]\<rparr>
        topk_constants topk_op []
      = Inr [topk_layer topk_op False 3]
   \<and> resolve id False \<lparr>by_name = Map.empty, by_type = Map.empty\<rparr> topk_constants topk_op []
      = Inl (UnsupportedOperator ''TopKV2'' ''output'')"
  using name_keyed_callback_wins [of
      "\<lparr>by_name = [''output'' \<mapsto> convert_slice never_consulted], by_type = [''Slice'' \<mapsto> convert_topk]\<rparr>"
      slice_op "convert_slice never_consulted" id True slice_constants "[]"]
    name_keyed_callback_wins [of
      "\<lparr>by_name = Map.empty, by_type = [''TopKV2'' \<mapsto> convert_topk]\<rparr>"
      topk_op convert_topk id True topk_constants "[]"]
    name_keyed_callback_wins [of
      "\<lparr>by_name = Map.empty, by_type = Map.empty\<rparr>"
      topk_op convert_topk id False topk_constants "[]"]
  by (simp add: slice_op_def topk_op_def slice_constants_def topk_constants_def
      convert_slice_unfold convert_topk_unfold and_then_def dict_get_def slice_layer_def
      py_float_def
      topk_layer_def)

text \<open>
  The default placeholder strategy, on the model of the resolver: with no callback and
  automatic insertion on, exactly one layer is appended. It is a custom layer with no
  parameter and a blank description, its inputs and outputs are the operator's, and its
  class name is \<open>class_name_of\<close> of the operator's type, so two operators of one type
  get one class name. Whether two types can share a class name depends on the derivation
  \<open>class_name_of\<close>, which neither the notebook nor the spec gives.
\<close>

lemma default_placeholder_strategy:
  assumes "by_name reg (op_name tf_op) = None" and "by_type reg (op_type tf_op) = None"
  shows "resolve cn True reg constant_inputs tf_op b = Inr (b @ [default_placeholder cn tf_op])"
    and "WhichOneof (default_placeholder cn tf_op) = ''custom''"
    and "className (custom (default_placeholder cn tf_op)) = cn (op_type tf_op)"
    and "parameters (custom (default_placeholder cn tf_op)) = Map.empty"
    and "description (custom (default_placeholder cn tf_op)) = []"
    and "layer_input (default_placeholder cn tf_op) = op_inputs tf_op"
    and "layer_output (default_placeholder cn tf_op) = op_outputs tf_op"
  using assms
  by (simp_all add: resolve_def lookup_callback_def default_placeholder_def WhichOneof_def
      custom_def)

section \<open>The resolver: the unsupported operator\<close>

text \<open>
  Claim C2: an operator with no direct equivalent in the target schema, no registered
  callback, and automatic insertion disabled. Its resolution fails with the unsupported
  operator condition that carries the operator's type and name. A conversion of a graph
  that contains such an operator never returns an artifact; when the operators before it
  convert, the failure is the unsupported operator condition of this operator. The driver
  and the resolver are modelled from the spec.
\<close>

theorem unsupported_operator_aborts:
  "standard tf_op = None \<and> \<not> acl \<and> by_name reg (op_name tf_op) = None
     \<and> by_type reg (op_type tf_op) = None
   \<longrightarrow> resolve cn acl reg constant_inputs tf_op b
         = Inl (UnsupportedOperator (op_type tf_op) (op_name tf_op))
       \<and> (tf_op \<in> set ops \<longrightarrow> (\<exists>e. convert_ops standard cn acl reg constant_inputs ops start = Inl e))
       \<and> (convert_ops standard cn acl reg constant_inputs pre start = Inr mid
            \<longrightarrow> convert_ops standard cn acl reg constant_inputs (pre @ tf_op # post) start
                = Inl (UnsupportedOperator (op_type tf_op) (op_name tf_op)))"
proof (intro impI conjI)
  assume h: "standard tf_op = None \<and> \<not> acl \<and> by_name reg (op_name tf_op) = None
     \<and> by_type reg (op_type tf_op) = None"
  then have r: "\<And>b. resolve cn acl reg constant_inputs tf_op b
         = Inl (UnsupportedOperator (op_type tf_op) (op_name tf_op))"
    by (simp add: resolve_unsupported)
  show "resolve cn acl reg constant_inputs tf_op b
         = Inl (UnsupportedOperator (op_type tf_op) (op_name tf_op))"
    by (rule r)
  have step: "\<And>post b. convert_ops standard cn acl reg constant_inputs (tf_op # post) b
        = Inl (UnsupportedOperator (op_type tf_op) (op_name tf_op))"
    using h r by simp
  {
    assume "tf_op \<in> set ops"
    then obtain pre post where ops: "ops = pre @ tf_op # post"
      by (auto dest: split_list)
    show "\<exists>e. convert_ops standard cn acl reg constant_inputs ops start = Inl e"
      unfolding ops convert_ops_append
      by (cases "convert_ops standard cn acl reg constant_inputs pre start")
         (simp_all add: step del: convert_ops.simps)
  }
  {
    assume "convert_ops standard cn acl reg constant_inputs pre start = Inr mid"
    then show "convert_ops standard cn acl reg constant_inputs (pre @ tf_op # post) start
                = Inl (UnsupportedOperator (op_type tf_op) (op_name tf_op))"
      by (simp add: convert_ops_append step del: convert_ops.simps)
  }
qed

text \<open>
  The notebook's first attempt on the top-k graph: no callbacks, automatic insertion off.
  The softmax converts, the top-k operator is refused by type and name.
\<close>

theorem unsupported_operator_aborts_witness:
  "softmax_only topk_op = None
   \<and> by_name (registry_of_dict Map.empty) (op_name topk_op) = None
   \<and> by_type (registry_of_dict Map.empty) (op_type topk_op) = None
   \<and> topk_op \<in> set [softmax_op, topk_op]
   \<and> convert_ops softmax_only id False (registry_of_dict Map.empty) topk_constants [softmax_op] []
       = Inr [\<lparr>layer_name = ''Softmax'', layer_input = [''dense/Relu:0''],
               layer_output = [''Softmax:0''], layer = Other ''softmax''\<rparr>]
   \<and> resolve id False (registry_of_dict Map.empty) topk_constants topk_op []
       = Inl (UnsupportedOperator ''TopKV2'' ''output'')
   \<and> (\<exists>e. convert_ops softmax_only id False (registry_of_dict Map.empty) topk_constants
            [softmax_op, topk_op] [] = Inl e)
   \<and> convert_ops softmax_only id False (registry_of_dict Map.empty) topk_constants
        ([softmax_op] @ topk_op # []) []
       = Inl (UnsupportedOperator ''TopKV2'' ''output'')"
  using unsupported_operator_aborts [where standard = softmax_only and tf_op = topk_op
      and acl = False and reg = "registry_of_dict Map.empty" and cn = id
      and constant_inputs = topk_constants and b = "[]" and ops = "[softmax_op, topk_op]" and start = "[]"
      and pre = "[softmax_op]" and post = "[]"
      and mid = "[\<lparr>layer_name = ''Softmax'', layer_input = [''dense/Relu:0''],
               layer_output = [''Softmax:0''], layer = Other ''softmax''\<rparr>]"]
  by (simp add: softmax_only_def topk_op_def softmax_op_def registry_of_dict_def)

section \<open>Parameter values\<close>

lemma variants_set_after_assignment:
  "variants_set (set_intValue i v) = 1" "variants_set (set_boolValue bv v) = 1"
  "variants_set (set_floatListValue fs v) = 1"
  by (simp_all add: variants_set_def set_intValue_def set_boolValue_def set_floatListValue_def)

lemma value_after_assignment:
  "intValue (set_intValue i v) = Some i" "boolValue (set_boolValue bv v) = Some bv"
  by (simp_all add: set_intValue_def set_boolValue_def)

lemma ran_assign_intValue:
  "pv \<in> ran (parameters (assign_intValue key i p)) \<Longrightarrow>
   pv = set_intValue i (parameter_at p key) \<or> pv \<in> ran (parameters p)"
  by (auto simp: assign_intValue_def ran_def split: if_splits)

lemma ran_assign_boolValue:
  "pv \<in> ran (parameters (assign_boolValue key bv p)) \<Longrightarrow>
   pv = set_boolValue bv (parameter_at p key) \<or> pv \<in> ran (parameters p)"
  by (auto simp: assign_boolValue_def ran_def split: if_splits)

lemma patched_parameters:
  assumes "patch_cell ls = Inr ls'"
  shows "custom (ls' ! 3) = assign_boolValue ''sorted'' False (assign_intValue ''k'' 3 (custom (ls ! 3)))"
  using assms by (auto simp: patch_cell_unfold custom_def split: if_splits)

text \<open>
  Claim C6: every parameter that the resolver, a callback or the patching cell sets holds
  exactly one of the three variants. An assignment of one variant leaves exactly that
  variant set, whatever the value held before. Hence every parameter of the layer that
  \<^verbatim>\<open>_convert_topk\<close> or \<^verbatim>\<open>_convert_slice\<close> attaches holds one variant, the default
  placeholder has no parameter at all, and after the patching cell the parameters \<open>k\<close> and
  \<open>sorted\<close> of the patched layer hold the integer 3 and the boolean false and nothing
  else; when every parameter of that layer held one variant before the cell, every
  parameter holds one variant after it. The parameter value is modelled from the spec.
\<close>

theorem parameters_hold_one_variant:
  "variants_set (set_intValue i v) = 1 \<and> variants_set (set_boolValue bv v) = 1
   \<and> variants_set (set_floatListValue fs v) = 1
   \<and> (convert_topk tf_op b constant_inputs = Inr b'
        \<longrightarrow> (\<forall>pv\<in>ran (parameters (custom (last b'))). variants_set pv = 1))
   \<and> (convert_slice inexact tf_op b constant_inputs = Inr b'
        \<longrightarrow> (\<forall>pv\<in>ran (parameters (custom (last b'))). variants_set pv = 1))
   \<and> (\<forall>pv\<in>ran (parameters (custom (default_placeholder cn tf_op))). variants_set pv = 1)
   \<and> (patch_cell ls = Inr ls'
        \<longrightarrow> (\<exists>kv sv. parameters (custom (ls' ! 3)) ''k'' = Some kv \<and> variants_set kv = 1
                \<and> intValue kv = Some 3
                \<and> parameters (custom (ls' ! 3)) ''sorted'' = Some sv \<and> variants_set sv = 1
                \<and> boolValue sv = Some False))
   \<and> (patch_cell ls = Inr ls'
        \<and> (\<forall>pv\<in>ran (parameters (custom (ls ! 3))). variants_set pv = 1)
        \<longrightarrow> (\<forall>pv\<in>ran (parameters (custom (ls' ! 3))). variants_set pv = 1))"
proof (intro conjI impI)
  show "variants_set (set_intValue i v) = 1" "variants_set (set_boolValue bv v) = 1"
    "variants_set (set_floatListValue fs v) = 1"
    by (rule variants_set_after_assignment)+
next
  assume "convert_topk tf_op b constant_inputs = Inr b'"
  then obtain srt kv where "b' = b @ [topk_layer tf_op srt kv]"
    using convert_topk_Inr by blast
  then show "\<forall>pv\<in>ran (parameters (custom (last b'))). variants_set pv = 1"
    by (auto simp: topk_layer_def custom_def ran_def variants_set_after_assignment split: if_splits)
next
  assume "convert_slice inexact tf_op b constant_inputs = Inr b'"
  then obtain bg sz where "b' = b @ [slice_layer tf_op bg sz]"
    using convert_slice_Inr by blast
  then show "\<forall>pv\<in>ran (parameters (custom (last b'))). variants_set pv = 1"
    by (simp add: slice_layer_def custom_def)
next
  show "\<forall>pv\<in>ran (parameters (custom (default_placeholder cn tf_op))). variants_set pv = 1"
    by (simp add: default_placeholder_def custom_def)
next
  assume "patch_cell ls = Inr ls'"
  then have "custom (ls' ! 3)
      = assign_boolValue ''sorted'' False (assign_intValue ''k'' 3 (custom (ls ! 3)))"
    by (rule patched_parameters)
  then show "\<exists>kv sv. parameters (custom (ls' ! 3)) ''k'' = Some kv \<and> variants_set kv = 1
                \<and> intValue kv = Some 3
                \<and> parameters (custom (ls' ! 3)) ''sorted'' = Some sv \<and> variants_set sv = 1
                \<and> boolValue sv = Some False"
    by (simp add: assign_boolValue_def assign_intValue_def variants_set_after_assignment
        value_after_assignment)
next
  assume h: "patch_cell ls = Inr ls'
        \<and> (\<forall>pv\<in>ran (parameters (custom (ls ! 3))). variants_set pv = 1)"
  then have eq: "custom (ls' ! 3)
      = assign_boolValue ''sorted'' False (assign_intValue ''k'' 3 (custom (ls ! 3)))"
    by (simp add: patched_parameters)
  show "\<forall>pv\<in>ran (parameters (custom (ls' ! 3))). variants_set pv = 1"
  proof
    fix pv assume "pv \<in> ran (parameters (custom (ls' ! 3)))"
    then have "pv = set_boolValue False (parameter_at (assign_intValue ''k'' 3 (custom (ls ! 3))) ''sorted'')
        \<or> pv = set_intValue 3 (parameter_at (custom (ls ! 3)) ''k'')
        \<or> pv \<in> ran (parameters (custom (ls ! 3)))"
      unfolding eq by (blast dest: ran_assign_boolValue ran_assign_intValue)
    then show "variants_set pv = 1"
      using h by (auto simp: variants_set_after_assignment)
  qed
qed

theorem parameters_hold_one_variant_witness:
  "variants_set (set_intValue 3 \<lparr>intValue = None, boolValue = Some True, floatListValue = None\<rparr>) = 1
   \<and> convert_topk topk_op [] topk_constants = Inr [topk_layer topk_op False 3]
   \<and> parameters (custom (last [topk_layer topk_op False 3])) ''sorted''
        = Some (set_boolValue False unset_value)
   \<and> variants_set (set_boolValue False unset_value) = 1
   \<and> parameters (custom (last [topk_layer topk_op False 3])) ''k''
        = Some (set_intValue 3 unset_value)
   \<and> variants_set (set_intValue 3 unset_value) = 1
   \<and> patch_cell (topk_preceding_layers @ [default_placeholder id topk_op])
        = Inr (final_state (patch_cell (topk_preceding_layers @ [default_placeholder id topk_op])))
   \<and> (\<exists>kv sv.
         parameters (custom (final_state
            (patch_cell (topk_preceding_layers @ [default_placeholder id topk_op])) ! 3)) ''k''
           = Some kv
         \<and> variants_set kv = 1 \<and> intValue kv = Some 3
         \<and> parameters (custom (final_state
            (patch_cell (topk_preceding_layers @ [default_placeholder id topk_op])) ! 3)) ''sorted''
           = Some sv
         \<and> variants_set sv = 1 \<and> boolValue sv = Some False)"
  using parameters_hold_one_variant [where i = 3 and bv = False and fs = "[]" and cn = id
      and inexact = never_consulted
      and v = "\<lparr>intValue = None, boolValue = Some True, floatListValue = None\<rparr>"
      and tf_op = topk_op and b = "[]" and constant_inputs = topk_constants
      and b' = "[topk_layer topk_op False 3]"
      and ls = "topk_preceding_layers @ [default_placeholder id topk_op]"
      and ls' = "final_state (patch_cell (topk_preceding_layers @ [default_placeholder id topk_op]))"]
  by (simp add: convert_topk_unfold and_then_def dict_get_def topk_op_def topk_constants_def
      patch_cell_unfold final_state_def topk_preceding_layers_def default_placeholder_def
      topk_layer_def custom_def)

section \<open>The top-k scenario\<close>

lemma resolve_registry_of_dict:
  "d (op_name tf_op) = None \<or> d (op_name tf_op) = Some cb \<Longrightarrow> d (op_type tf_op) = Some cb \<Longrightarrow>
   resolve cn acl (registry_of_dict d) constant_inputs tf_op b = cb tf_op b constant_inputs"
  by (auto simp: resolve_def lookup_callback_def registry_of_dict_def)

text \<open>
  Claim C7: a graph with one \<open>TopKV2\<close> operator (two inputs, the second the constant
  \<open>k = 3\<close>; two outputs; attribute \<open>sorted = False\<close>) whose layer is the fourth of the
  model. The notebook reaches the final layer on two routes, and both end in a custom
  layer with exactly one input, exactly one output and exactly the parameters \<open>k = 3\<close>
  (integer) and \<open>sorted = False\<close> (boolean):
  \<^item> \<^verbatim>\<open>_convert_topk\<close> registered under the operator type attaches that layer directly;
  \<^item> without a callback the default placeholder keeps both inputs and both outputs, and
    the patching cell removes the second input and the second output and sets the two
    parameters.
  The cell run after the callback finds no second input: it raises at its first statement
  and leaves the callback's layer as it is. The callback and the cell are the notebook's;
  the dispatch through the registry and the default placeholder are modelled from the spec.
\<close>

theorem topk_scenario:
  "op_type tf_op = ''TopKV2'' \<and> op_inputs tf_op = [x, k_ref]
     \<and> op_outputs tf_op = [top_values, top_indices]
     \<and> op_attrs tf_op ''sorted'' = Some (PyBool False)
     \<and> constant_inputs k_ref = Some (PyInt 3) \<and> length b = 3
   \<longrightarrow>
     resolve cn True (registry_of_dict [''TopKV2'' \<mapsto> convert_topk]) constant_inputs tf_op b
       = Inr (b @ [topk_layer tf_op False 3])
     \<and> layer_input (topk_layer tf_op False 3) = [x]
     \<and> layer_output (topk_layer tf_op False 3) = [top_values]
     \<and> parameters (custom (topk_layer tf_op False 3))
         = [''k'' \<mapsto> \<lparr>intValue = Some 3, boolValue = None, floatListValue = None\<rparr>,
            ''sorted'' \<mapsto> \<lparr>intValue = None, boolValue = Some False, floatListValue = None\<rparr>]
     \<and> resolve cn True (registry_of_dict Map.empty) constant_inputs tf_op b
         = Inr (b @ [default_placeholder cn tf_op])
     \<and> (\<exists>l. patch_cell (b @ [default_placeholder cn tf_op]) = Inr (b @ [l])
           \<and> WhichOneof l = ''custom''
           \<and> layer_input l = [x] \<and> layer_output l = [top_values]
           \<and> parameters (custom l)
               = [''k'' \<mapsto> \<lparr>intValue = Some 3, boolValue = None, floatListValue = None\<rparr>,
                  ''sorted'' \<mapsto> \<lparr>intValue = None, boolValue = Some False, floatListValue = None\<rparr>])
     \<and> patch_cell (b @ [topk_layer tf_op False 3])
         = Inl (IndexError, b @ [topk_layer tf_op False 3])"
proof (intro impI)
  assume h: "op_type tf_op = ''TopKV2'' \<and> op_inputs tf_op = [x, k_ref]
     \<and> op_outputs tf_op = [top_values, top_indices]
     \<and> op_attrs tf_op ''sorted'' = Some (PyBool False)
     \<and> constant_inputs k_ref = Some (PyInt 3) \<and> length b = 3"
  have cb: "convert_topk tf_op b constant_inputs = Inr (b @ [topk_layer tf_op False 3])"
    using h by (simp add: convert_topk_unfold and_then_def dict_get_def)
  have r1: "resolve cn True (registry_of_dict [''TopKV2'' \<mapsto> convert_topk]) constant_inputs tf_op b
       = Inr (b @ [topk_layer tf_op False 3])"
    using h cb by (subst resolve_registry_of_dict [where cb = convert_topk]) auto
  have io: "layer_input (topk_layer tf_op False 3) = [x]"
    "layer_output (topk_layer tf_op False 3) = [top_values]"
    using h by (simp_all add: topk_layer_def)
  have ps: "parameters (custom (topk_layer tf_op False 3))
         = [''k'' \<mapsto> \<lparr>intValue = Some 3, boolValue = None, floatListValue = None\<rparr>,
            ''sorted'' \<mapsto> \<lparr>intValue = None, boolValue = Some False, floatListValue = None\<rparr>]"
    by (auto simp: topk_layer_def custom_def set_intValue_def set_boolValue_def unset_value_def)
  have r2: "resolve cn True (registry_of_dict Map.empty) constant_inputs tf_op b
         = Inr (b @ [default_placeholder cn tf_op])"
    by (simp add: resolve_def lookup_callback_def registry_of_dict_def)
  let ?l = "\<lparr>layer_name = op_name tf_op, layer_input = [x], layer_output = [top_values],
             layer = Custom \<lparr>className = cn ''TopKV2'', description = [],
               parameters = [''k'' \<mapsto> \<lparr>intValue = Some 3, boolValue = None, floatListValue = None\<rparr>,
                  ''sorted'' \<mapsto> \<lparr>intValue = None, boolValue = Some False, floatListValue = None\<rparr>],
               weights = []\<rparr>\<rparr>"
  have p: "patch_cell (b @ [default_placeholder cn tf_op]) = Inr (b @ [?l])"
    using h
    by (simp add: patch_cell_unfold default_placeholder_def nth_append custom_def
        assign_boolValue_def assign_intValue_def parameter_at_def list_update_append
        set_intValue_def set_boolValue_def unset_value_def)
  have p_ex: "\<exists>l. patch_cell (b @ [default_placeholder cn tf_op]) = Inr (b @ [l])
           \<and> WhichOneof l = ''custom''
           \<and> layer_input l = [x] \<and> layer_output l = [top_values]
           \<and> parameters (custom l)
               = [''k'' \<mapsto> \<lparr>intValue = Some 3, boolValue = None, floatListValue = None\<rparr>,
                  ''sorted'' \<mapsto> \<lparr>intValue = None, boolValue = Some False, floatListValue = None\<rparr>]"
    by (rule exI [of _ ?l]) (simp add: p WhichOneof_def custom_def)
  have again: "patch_cell (b @ [topk_layer tf_op False 3])
         = Inl (IndexError, b @ [topk_layer tf_op False 3])"
    using h by (simp add: patch_cell_unfold nth_append topk_layer_def)
  show "resolve cn True (registry_of_dict [''TopKV2'' \<mapsto> convert_topk]) constant_inputs tf_op b
       = Inr (b @ [topk_layer tf_op False 3])
     \<and> layer_input (topk_layer tf_op False 3) = [x]
     \<and> layer_output (topk_layer tf_op False 3) = [top_values]
     \<and> parameters (custom (topk_layer tf_op False 3))
         = [''k'' \<mapsto> \<lparr>intValue = Some 3, boolValue = None, floatListValue = None\<rparr>,
            ''sorted'' \<mapsto> \<lparr>intValue = None, boolValue = Some False, floatListValue = None\<rparr>]
     \<and> resolve cn True (registry_of_dict Map.empty) constant_inputs tf_op b
         = Inr (b @ [default_placeholder cn tf_op])
     \<and> (\<exists>l. patch_cell (b @ [default_placeholder cn tf_op]) = Inr (b @ [l])
           \<and> WhichOneof l = ''custom''
           \<and> layer_input l = [x] \<and> layer_output l = [top_values]
           \<and> parameters (custom l)
               = [''k'' \<mapsto> \<lparr>intValue = Some 3, boolValue = None, floatListValue = None\<rparr>,
                  ''sorted'' \<mapsto> \<lparr>intValue = None, boolValue = Some False, floatListValue = None\<rparr>])
     \<and> patch_cell (b @ [topk_layer tf_op False 3])
         = Inl (IndexError, b @ [topk_layer tf_op False 3])"
    using r1 io ps r2 p_ex again by blast
qed

theorem topk_scenario_witness:
  "op_type topk_op = ''TopKV2'' \<and> length topk_preceding_layers = 3
   \<and> resolve id True (registry_of_dict [''TopKV2'' \<mapsto> convert_topk]) topk_constants topk_op
        topk_preceding_layers
       = Inr (topk_preceding_layers @ [topk_layer topk_op False 3])
   \<and> layer_input (topk_layer topk_op False 3) = [''Softmax:0'']
   \<and> layer_output (topk_layer topk_op False 3) = [''output:0'']
   \<and> (\<exists>l. patch_cell (topk_preceding_layers @ [default_placeholder id topk_op])
              = Inr (topk_preceding_layers @ [l])
           \<and> WhichOneof l = ''custom''
           \<and> layer_input l = [''Softmax:0''] \<and> layer_output l = [''output:0'']
           \<and> parameters (custom l)
               = [''k'' \<mapsto> \<lparr>intValue = Some 3, boolValue = None, floatListValue = None\<rparr>,
                  ''sorted'' \<mapsto> \<lparr>intValue = None, boolValue = Some False, floatListValue = None\<rparr>])"
  using topk_scenario [where tf_op = topk_op and x = "''Softmax:0''" and k_ref = "''output/k:0''"
      and top_values = "''output:0''" and top_indices = "''output:1''"
      and constant_inputs = topk_constants and b = topk_preceding_layers and cn = id]
  by (simp add: topk_op_def topk_constants_def topk_preceding_layers_def)

section \<open>Declared inputs and outputs\<close>

lemma nths_minus_1: "Suc 0 < length xs \<Longrightarrow> nths xs (- {Suc 0}) = hd xs # drop 2 xs"
  using nths_del [of "{}" 1 xs] by (cases xs) (simp_all add: nths_all)

lemma hd_in_nths: "xs \<noteq> [] \<Longrightarrow> 0 \<notin> S \<Longrightarrow> xs ! 0 \<in> set (nths xs (- S))"
  by (auto simp: set_nths)

lemma set_hd_drop: "set (hd xs # drop 2 xs) \<subseteq> set xs" if "xs \<noteq> []"
  using that by (cases xs) (auto dest: in_set_dropD)

lemma patch_cell_io_shrinks:
  assumes "n < length ls"
  shows "length (final_state (patch_cell ls)) = length ls
     \<and> set (layer_input (final_state (patch_cell ls) ! n)) \<subseteq> set (layer_input (ls ! n))
     \<and> set (layer_output (final_state (patch_cell ls) ! n)) \<subseteq> set (layer_output (ls ! n))"
proof -
  have i: "1 < length (layer_input (ls ! 3)) \<Longrightarrow>
        set (hd (layer_input (ls ! 3)) # drop 2 (layer_input (ls ! 3))) \<subseteq> set (layer_input (ls ! 3))"
    by (rule set_hd_drop) auto
  have out: "1 < length (layer_output (ls ! 3)) \<Longrightarrow>
        set (hd (layer_output (ls ! 3)) # drop 2 (layer_output (ls ! 3))) \<subseteq> set (layer_output (ls ! 3))"
    by (rule set_hd_drop) auto
  show ?thesis
    using assms i out
    by (cases "n = 3") (auto simp: patch_cell_unfold final_state_def nth_list_update)
qed

text \<open>
  Claim C9: the input and output references a placeholder declares are among those the
  source operator exposes once the constant-only inputs are folded out. The slots folded
  out are the ones whose value the callback reads from the constant table (slot 1 for
  \<^verbatim>\<open>_convert_topk\<close>, slots 1 and 2 for \<^verbatim>\<open>_convert_slice\<close>) and the slot the patching
  cell deletes (slot 1); \<open>nths xs (- S)\<close> is the list \<open>xs\<close> without the slots in \<open>S\<close>.
  \<^item> The layer a callback attaches declares only references among the operator's inputs
    without the folded slots, and among the operator's outputs.
  \<^item> The patching cell never adds a reference: in the state it leaves behind, also when
    it raises partway, every layer declares a subset of what it declared before.
  \<^item> When the cell succeeds, the patched layer declares exactly its former inputs and
    outputs without slot 1.
\<close>

theorem declared_io_within_exposed:
  "(convert_topk tf_op b constant_inputs = Inr b'
      \<longrightarrow> (\<exists>l. b' = b @ [l]
            \<and> set (layer_input l) \<subseteq> set (nths (op_inputs tf_op) (- {1}))
            \<and> set (layer_output l) \<subseteq> set (op_outputs tf_op)))
   \<and> (convert_slice inexact tf_op b constant_inputs = Inr b'
      \<longrightarrow> (\<exists>l. b' = b @ [l]
            \<and> set (layer_input l) \<subseteq> set (nths (op_inputs tf_op) (- {1, 2}))
            \<and> set (layer_output l) \<subseteq> set (op_outputs tf_op)))
   \<and> (n < length ls
      \<longrightarrow> length (final_state (patch_cell ls)) = length ls
        \<and> set (layer_input (final_state (patch_cell ls) ! n)) \<subseteq> set (layer_input (ls ! n))
        \<and> set (layer_output (final_state (patch_cell ls) ! n)) \<subseteq> set (layer_output (ls ! n)))
   \<and> (patch_cell ls = Inr ls'
      \<longrightarrow> layer_input (ls' ! 3) = nths (layer_input (ls ! 3)) (- {1})
        \<and> layer_output (ls' ! 3) = nths (layer_output (ls ! 3)) (- {1}))"
proof (intro conjI impI)
  assume "convert_topk tf_op b constant_inputs = Inr b'"
  then obtain srt kv where "b' = b @ [topk_layer tf_op srt kv]"
    "1 < length (op_inputs tf_op)" "op_outputs tf_op \<noteq> []"
    using convert_topk_Inr by blast
  then show "\<exists>l. b' = b @ [l]
            \<and> set (layer_input l) \<subseteq> set (nths (op_inputs tf_op) (- {1}))
            \<and> set (layer_output l) \<subseteq> set (op_outputs tf_op)"
    by (auto simp: topk_layer_def intro!: hd_in_nths)
next
  assume "convert_slice inexact tf_op b constant_inputs = Inr b'"
  then obtain bg sz where "b' = b @ [slice_layer tf_op bg sz]"
    "2 < length (op_inputs tf_op)" "op_outputs tf_op \<noteq> []"
    using convert_slice_Inr by blast
  then show "\<exists>l. b' = b @ [l]
            \<and> set (layer_input l) \<subseteq> set (nths (op_inputs tf_op) (- {1, 2}))
            \<and> set (layer_output l) \<subseteq> set (op_outputs tf_op)"
    by (auto simp: slice_layer_def intro!: hd_in_nths)
next
  assume "n < length ls"
  then show "length (final_state (patch_cell ls)) = length ls"
    "set (layer_input (final_state (patch_cell ls) ! n)) \<subseteq> set (layer_input (ls ! n))"
    "set (layer_output (final_state (patch_cell ls) ! n)) \<subseteq> set (layer_output (ls ! n))"
    using patch_cell_io_shrinks by blast+
next
  assume "patch_cell ls = Inr ls'"
  then show "layer_input (ls' ! 3) = nths (layer_input (ls ! 3)) (- {1})"
    "layer_output (ls' ! 3) = nths (layer_output (ls ! 3)) (- {1})"
    by (auto simp: patch_cell_unfold nths_minus_1 split: if_splits)
qed

theorem declared_io_within_exposed_witness:
  "convert_topk topk_op [] topk_constants = Inr [topk_layer topk_op False 3]
   \<and> (\<exists>l. [topk_layer topk_op False 3] = [] @ [l]
         \<and> set (layer_input l) \<subseteq> set (nths (op_inputs topk_op) (- {1}))
         \<and> set (layer_output l) \<subseteq> set (op_outputs topk_op))
   \<and> convert_slice never_consulted slice_op [] slice_constants
        = Inr [slice_layer slice_op [Finite 0, Finite 1, Finite 1, Finite 1]
            [Finite 1, Finite 2, Finite 2, Finite 2]]
   \<and> (\<exists>l. [slice_layer slice_op [Finite 0, Finite 1, Finite 1, Finite 1]
            [Finite 1, Finite 2, Finite 2, Finite 2]] = [] @ [l]
         \<and> set (layer_input l) \<subseteq> set (nths (op_inputs slice_op) (- {1, 2}))
         \<and> set (layer_output l) \<subseteq> set (op_outputs slice_op))
   \<and> patch_cell (topk_preceding_layers @ [default_placeholder id topk_op])
        = Inr (final_state (patch_cell (topk_preceding_layers @ [default_placeholder id topk_op])))
   \<and> layer_input (final_state (patch_cell (topk_preceding_layers @ [default_placeholder id topk_op])) ! 3)
        = nths (layer_input ((topk_preceding_layers @ [default_placeholder id topk_op]) ! 3)) (- {1})
   \<and> layer_input (final_state (patch_cell (topk_preceding_layers @ [default_placeholder id topk_op])) ! 3)
        = [''Softmax:0'']
   \<and> set (layer_output (final_state (patch_cell (topk_preceding_layers @ [default_placeholder id topk_op])) ! 3))
        \<subseteq> set (layer_output ((topk_preceding_layers @ [default_placeholder id topk_op]) ! 3))"
  using
    declared_io_within_exposed [where tf_op = topk_op and b = "[]"
      and constant_inputs = topk_constants and inexact = never_consulted and n = 3
      and b' = "[topk_layer topk_op False 3]"
      and ls = "topk_preceding_layers @ [default_placeholder id topk_op]"
      and ls' = "final_state (patch_cell (topk_preceding_layers @ [default_placeholder id topk_op]))"]
    declared_io_within_exposed [where tf_op = slice_op and b = "[]"
      and constant_inputs = slice_constants and inexact = never_consulted and n = 3
      and b' = "[slice_layer slice_op [Finite 0, Finite 1, Finite 1, Finite 1]
            [Finite 1, Finite 2, Finite 2, Finite 2]]"
      and ls = "topk_preceding_layers @ [default_placeholder id topk_op]"
      and ls' = "final_state (patch_cell (topk_preceding_layers @ [default_placeholder id topk_op]))"]
  by (simp add: convert_topk_unfold convert_slice_unfold and_then_def dict_get_def
      topk_op_def slice_op_def topk_constants_def slice_constants_def
      patch_cell_unfold final_state_def topk_preceding_layers_def default_placeholder_def
      topk_layer_def slice_layer_def nths_Cons py_float_def)

section \<open>Defaults for absent constants\<close>

text \<open>
  Claim C10: when a constant-valued input is absent from the constant table the callback
  takes a fixed default and still attaches its layer. For an operator that has the inputs
  and the output the callback indexes (and, for top-k, a boolean attribute \<open>sorted\<close>):
  \<^verbatim>\<open>_convert_topk\<close> with \<open>k\<close> absent attaches the layer with the integer parameter
  \<open>k = 3\<close>; \<^verbatim>\<open>_convert_slice\<close> with \<open>begin\<close> and \<open>size\<close> absent attaches the layer with
  the weight array \<open>[0, 0, 0, 0]\<close> for each. With only one of the two absent it gets
  \<open>[0, 0, 0, 0]\<close> and the layer is attached when the vector that is present converts to
  floats, which it does exactly when its entries are within \<open>2 ^ 24\<close> in magnitude; when
  the present vector's conversion raises, the callback raises with it, whatever the
  default. All of this holds for every outcome of the float conversion outside the exact
  range.
\<close>

theorem absent_constants_get_defaults:
  "(1 < length (op_inputs tf_op) \<and> op_outputs tf_op \<noteq> []
      \<and> op_attrs tf_op ''sorted'' = Some (PyBool srt)
      \<and> constant_inputs (op_inputs tf_op ! 1) = None
    \<longrightarrow> convert_topk tf_op b constant_inputs = Inr (b @ [topk_layer tf_op srt 3])
        \<and> parameters (custom (topk_layer tf_op srt 3)) ''k''
            = Some \<lparr>intValue = Some 3, boolValue = None, floatListValue = None\<rparr>)
   \<and> (2 < length (op_inputs tf_op) \<and> op_outputs tf_op \<noteq> []
      \<and> constant_inputs (op_inputs tf_op ! 1) = None
      \<and> constant_inputs (op_inputs tf_op ! 2) = None
    \<longrightarrow> convert_slice inexact tf_op b constant_inputs
          = Inr (b @ [slice_layer tf_op [Finite 0, Finite 0, Finite 0, Finite 0]
                        [Finite 0, Finite 0, Finite 0, Finite 0]]))
   \<and> (2 < length (op_inputs tf_op) \<and> op_outputs tf_op \<noteq> []
      \<and> constant_inputs (op_inputs tf_op ! 1) = None
      \<and> constant_inputs (op_inputs tf_op ! 2) = Some (PyList sz)
    \<longrightarrow> ((\<forall>x\<in>set sz. abs x \<le> 2 ^ 24)
          \<longrightarrow> convert_slice inexact tf_op b constant_inputs
              = Inr (b @ [slice_layer tf_op [Finite 0, Finite 0, Finite 0, Finite 0]
                            (map (\<lambda>x. Finite (real_of_int x)) sz)]))
        \<and> (\<forall>ws. extend_floats inexact sz = Inr ws
          \<longrightarrow> convert_slice inexact tf_op b constant_inputs
              = Inr (b @ [slice_layer tf_op [Finite 0, Finite 0, Finite 0, Finite 0] ws]))
        \<and> (\<forall>e. extend_floats inexact sz = Inl e
          \<longrightarrow> convert_slice inexact tf_op b constant_inputs = Inl e))
   \<and> (2 < length (op_inputs tf_op) \<and> op_outputs tf_op \<noteq> []
      \<and> constant_inputs (op_inputs tf_op ! 1) = Some (PyList bg)
      \<and> constant_inputs (op_inputs tf_op ! 2) = None
    \<longrightarrow> ((\<forall>x\<in>set bg. abs x \<le> 2 ^ 24)
          \<longrightarrow> convert_slice inexact tf_op b constant_inputs
              = Inr (b @ [slice_layer tf_op (map (\<lambda>x. Finite (real_of_int x)) bg)
                            [Finite 0, Finite 0, Finite 0, Finite 0]]))
        \<and> (\<forall>ws. extend_floats inexact bg = Inr ws
          \<longrightarrow> convert_slice inexact tf_op b constant_inputs
              = Inr (b @ [slice_layer tf_op ws [Finite 0, Finite 0, Finite 0, Finite 0]]))
        \<and> (\<forall>e. extend_floats inexact bg = Inl e
          \<longrightarrow> convert_slice inexact tf_op b constant_inputs = Inl e))"
proof (intro conjI impI allI)
  assume "1 < length (op_inputs tf_op) \<and> op_outputs tf_op \<noteq> []
      \<and> op_attrs tf_op ''sorted'' = Some (PyBool srt)
      \<and> constant_inputs (op_inputs tf_op ! 1) = None"
  then show "convert_topk tf_op b constant_inputs = Inr (b @ [topk_layer tf_op srt 3])"
    by (simp add: convert_topk_unfold and_then_def dict_get_def)
next
  show "parameters (custom (topk_layer tf_op srt 3)) ''k''
            = Some \<lparr>intValue = Some 3, boolValue = None, floatListValue = None\<rparr>"
    by (simp add: topk_layer_def custom_def set_intValue_def unset_value_def)
next
  assume "2 < length (op_inputs tf_op) \<and> op_outputs tf_op \<noteq> []
      \<and> constant_inputs (op_inputs tf_op ! 1) = None
      \<and> constant_inputs (op_inputs tf_op ! 2) = None"
  then show "convert_slice inexact tf_op b constant_inputs
          = Inr (b @ [slice_layer tf_op [Finite 0, Finite 0, Finite 0, Finite 0]
                        [Finite 0, Finite 0, Finite 0, Finite 0]])"
    by (simp add: convert_slice_unfold and_then_def dict_get_def py_float_def)
next
  assume h: "2 < length (op_inputs tf_op) \<and> op_outputs tf_op \<noteq> []
      \<and> constant_inputs (op_inputs tf_op ! 1) = None
      \<and> constant_inputs (op_inputs tf_op ! 2) = Some (PyList sz)"
  {
    assume "\<forall>x\<in>set sz. abs x \<le> 2 ^ 24"
    then have "extend_floats inexact sz = Inr (map (\<lambda>x. Finite (real_of_int x)) sz)"
      by (rule extend_floats_exact)
    then show "convert_slice inexact tf_op b constant_inputs
              = Inr (b @ [slice_layer tf_op [Finite 0, Finite 0, Finite 0, Finite 0]
                            (map (\<lambda>x. Finite (real_of_int x)) sz)])"
      using h by (simp add: convert_slice_unfold and_then_def dict_get_def py_float_def)
  }
  {
    fix ws assume "extend_floats inexact sz = Inr ws"
    then show "convert_slice inexact tf_op b constant_inputs
              = Inr (b @ [slice_layer tf_op [Finite 0, Finite 0, Finite 0, Finite 0] ws])"
      using h by (simp add: convert_slice_unfold and_then_def dict_get_def py_float_def)
  }
  {
    fix e assume "extend_floats inexact sz = Inl e"
    then show "convert_slice inexact tf_op b constant_inputs = Inl e"
      using h by (simp add: convert_slice_unfold and_then_def dict_get_def py_float_def)
  }
next
  assume h: "2 < length (op_inputs tf_op) \<and> op_outputs tf_op \<noteq> []
      \<and> constant_inputs (op_inputs tf_op ! 1) = Some (PyList bg)
      \<and> constant_inputs (op_inputs tf_op ! 2) = None"
  {
    assume "\<forall>x\<in>set bg. abs x \<le> 2 ^ 24"
    then have "extend_floats inexact bg = Inr (map (\<lambda>x. Finite (real_of_int x)) bg)"
      by (rule extend_floats_exact)
    then show "convert_slice inexact tf_op b constant_inputs
              = Inr (b @ [slice_layer tf_op (map (\<lambda>x. Finite (real_of_int x)) bg)
                            [Finite 0, Finite 0, Finite 0, Finite 0]])"
      using h by (simp add: convert_slice_unfold and_then_def dict_get_def py_float_def)
  }
  {
    fix ws assume "extend_floats inexact bg = Inr ws"
    then show "convert_slice inexact tf_op b constant_inputs
              = Inr (b @ [slice_layer tf_op ws [Finite 0, Finite 0, Finite 0, Finite 0]])"
      using h by (simp add: convert_slice_unfold and_then_def dict_get_def py_float_def)
  }
  {
    fix e assume "extend_floats inexact bg = Inl e"
    then show "convert_slice inexact tf_op b constant_inputs = Inl e"
      using h by (simp add: convert_slice_unfold and_then_def dict_get_def py_float_def)
  }
qed

text \<open>
  The notebook's operators with an empty constant table, and the slice with only one of its
  two vectors in the table. With \<open>size = [2 ^ 1024]\<close> in the table the conversion raises
  \<open>OverflowError\<close> and so does the callback, although \<open>begin\<close> is absent.
\<close>

theorem absent_constants_get_defaults_witness:
  "convert_topk topk_op topk_preceding_layers Map.empty
     = Inr (topk_preceding_layers @ [topk_layer topk_op False 3])
   \<and> convert_slice never_consulted slice_op [] Map.empty
     = Inr [slice_layer slice_op [Finite 0, Finite 0, Finite 0, Finite 0]
              [Finite 0, Finite 0, Finite 0, Finite 0]]
   \<and> convert_slice never_consulted slice_op [] [''output/size:0'' \<mapsto> PyList [1, 2, 2, 2]]
     = Inr [slice_layer slice_op [Finite 0, Finite 0, Finite 0, Finite 0]
              [Finite 1, Finite 2, Finite 2, Finite 2]]
   \<and> convert_slice never_consulted slice_op [] [''output/begin:0'' \<mapsto> PyList [0, 1, 1, 1]]
     = Inr [slice_layer slice_op [Finite 0, Finite 1, Finite 1, Finite 1]
              [Finite 0, Finite 0, Finite 0, Finite 0]]
   \<and> extend_floats never_consulted [2 ^ 1024] = Inl OverflowError
   \<and> convert_slice never_consulted slice_op [] [''output/size:0'' \<mapsto> PyList [2 ^ 1024]]
     = Inl OverflowError"
  using
    absent_constants_get_defaults [where tf_op = topk_op and srt = False
      and constant_inputs = Map.empty and b = topk_preceding_layers]
    absent_constants_get_defaults [where tf_op = slice_op and inexact = never_consulted
      and constant_inputs = Map.empty and b = "[]"]
    absent_constants_get_defaults [where tf_op = slice_op and inexact = never_consulted
      and constant_inputs = "[''output/size:0'' \<mapsto> PyList [1, 2, 2, 2]]" and b = "[]"
      and sz = "[1, 2, 2, 2]"]
    absent_constants_get_defaults [where tf_op = slice_op and inexact = never_consulted
      and constant_inputs = "[''output/begin:0'' \<mapsto> PyList [0, 1, 1, 1]]" and b = "[]"
      and bg = "[0, 1, 1, 1]"]
    absent_constants_get_defaults [where tf_op = slice_op and inexact = never_consulted
      and constant_inputs = "[''output/size:0'' \<mapsto> PyList [2 ^ 1024]]" and b = "[]"
      and sz = "[2 ^ 1024]"]
    extend_floats_overflow [of "2 ^ 1024" never_consulted]
  by (simp add: topk_op_def slice_op_def)

end
